theory Spec2Isabelle
  imports Complex_Main "HOL-Library.Word"
begin

section \<open>JavaScript strings\<close>

text \<open>
  A JavaScript string is a sequence of 16-bit code units; \<open>length\<close>, the regular
  expressions (none of them carries the \<open>u\<close> flag) and \<open>trim\<close> all work on code units.
  \<open>js\<close> embeds an ASCII literal.
\<close>

type_synonym jschar = "16 word"
type_synonym jsstring = "jschar list"

definition js :: "string \<Rightarrow> jsstring" where
  "js s = map (\<lambda>c. of_nat (of_char c)) s"

text \<open>The character classes \<open>\d\<close>, \<open>\w\<close> and \<open>\s\<close> of ECMAScript.\<close>

definition is_digit :: "jschar \<Rightarrow> bool" where
  "is_digit c \<longleftrightarrow> 0x30 \<le> c \<and> c \<le> 0x39"

definition is_word :: "jschar \<Rightarrow> bool" where
  "is_word c \<longleftrightarrow> (0x41 \<le> c \<and> c \<le> 0x5A) \<or> (0x61 \<le> c \<and> c \<le> 0x7A) \<or> is_digit c \<or> c = 0x5F"

definition is_space :: "jschar \<Rightarrow> bool" where
  "is_space c \<longleftrightarrow>
     (0x09 \<le> c \<and> c \<le> 0x0D) \<or> c = 0x20 \<or> c = 0xA0 \<or> c = 0x1680 \<or>
     (0x2000 \<le> c \<and> c \<le> 0x200A) \<or> c = 0x2028 \<or> c = 0x2029 \<or> c = 0x202F \<or>
     c = 0x205F \<or> c = 0x3000 \<or> c = 0xFEFF"

text \<open>\<open>String.prototype.trim\<close>: white space and line terminators go from both ends.\<close>

definition trim :: "jsstring \<Rightarrow> jsstring" where
  "trim s = rev (dropWhile is_space (rev (dropWhile is_space s)))"

text \<open>\<open>startsWith\<close>, \<open>includes\<close>, \<open>split\<close> on one separator character, \<open>join\<close>.\<close>

fun startsWith :: "jsstring \<Rightarrow> jsstring \<Rightarrow> bool" where
  "startsWith s [] = True"
| "startsWith [] (p # ps) = False"
| "startsWith (x # xs) (p # ps) = (x = p \<and> startsWith xs ps)"

fun includes_str :: "jsstring \<Rightarrow> jsstring \<Rightarrow> bool" where
  "includes_str [] p = (p = [])"
| "includes_str (x # xs) p = (startsWith (x # xs) p \<or> includes_str xs p)"

fun split :: "jschar \<Rightarrow> jsstring \<Rightarrow> jsstring list" where
  "split sep [] = [Nil]"
| "split sep (x # xs) =
     (if x = sep then [] # split sep xs
      else (case split sep xs of [] \<Rightarrow> [x # Nil] | w # ws \<Rightarrow> (x # w) # ws))"

fun join :: "jsstring \<Rightarrow> jsstring list \<Rightarrow> jsstring" where
  "join sep [] = []"
| "join sep [x] = x"
| "join sep (x # y # ys) = x @ sep @ join sep (y # ys)"

text \<open>Decimal rendering of a number, as template literals do for integers.\<close>

fun show_nat :: "nat \<Rightarrow> jsstring" where
  "show_nat n =
     (if n < 10 then [of_nat (48 + n)]
      else show_nat (n div 10) @ [of_nat (48 + n mod 10)])"

definition show_int :: "int \<Rightarrow> jsstring" where
  "show_int i = (if i < 0 then js ''-'' @ show_nat (nat (- i)) else show_nat (nat i))"

text \<open>The value of a string of decimal digits (what \<open>parseInt\<close> reads from \<open>\d+\<close>).\<close>

definition digits_val :: "jsstring \<Rightarrow> nat" where
  "digits_val s = foldl (\<lambda>acc c. 10 * acc + (unat c - 48)) 0 s"

section \<open>Regular expressions\<close>

text \<open>
  The fragment of ECMAScript regular expressions that the sources use: single characters,
  character classes, concatenation, the greedy quantifiers \<open>?\<close>, \<open>*\<close>, \<open>+\<close> and numbered
  capture groups. \<open>rm r s c\<close> lists, in the backtracking matcher's order of preference,
  every way \<open>r\<close> can match a prefix of \<open>s\<close>: the rest of the input with the captures.
  An iteration of \<open>*\<close> that consumes nothing is dropped, as the standard prescribes.
\<close>

datatype re =
    Eps
  | Chr jschar
  | Cls "jschar \<Rightarrow> bool"
  | Seq re re
  | Opt re
  | Star re
  | Grp nat re

type_synonym caps = "nat \<rightharpoonup> jsstring"

fun rm :: "re \<Rightarrow> jsstring \<Rightarrow> caps \<Rightarrow> (jsstring \<times> caps) list" where
  "rm Eps s c = [(s, c)]"
| "rm (Chr a) s c = (case s of [] \<Rightarrow> [] | x # xs \<Rightarrow> if x = a then [(xs, c)] else [])"
| "rm (Cls p) s c = (case s of [] \<Rightarrow> [] | x # xs \<Rightarrow> if p x then [(xs, c)] else [])"
| "rm (Seq r1 r2) s c = concat (map (\<lambda>q. rm r2 (fst q) (snd q)) (rm r1 s c))"
| "rm (Opt r) s c = rm r s c @ [(s, c)]"
| "rm (Star r) s c =
     concat (map (\<lambda>q. if length (fst q) < length s then rm (Star r) (fst q) (snd q) else [])
                 (rm r s c)) @ [(s, c)]"
| "rm (Grp n r) s c =
     map (\<lambda>q. (fst q, (snd q)(n \<mapsto> take (length s - length (fst q)) s))) (rm r s c)"

definition OneOrMore :: "re \<Rightarrow> re" where
  "OneOrMore r = Seq r (Star r)"

definition seqs :: "re list \<Rightarrow> re" where
  "seqs rs = foldr Seq rs Eps"

definition lit :: "jsstring \<Rightarrow> re" where
  "lit s = seqs (map Chr s)"

text \<open>
  \<open>re_exec\<close> is \<open>RegExp.prototype.exec\<close> (and \<open>String.prototype.match\<close>) for a regular
  expression without flags: the leftmost start position that matches, with the preferred
  match there; \<open>None\<close> is JavaScript's \<open>null\<close>. \<open>re_test\<close> is \<open>RegExp.prototype.test\<close>.
\<close>

fun re_exec :: "re \<Rightarrow> jsstring \<Rightarrow> caps option" where
  "re_exec r [] = (case rm r [] Map.empty of [] \<Rightarrow> None | q # _ \<Rightarrow> Some (snd q))"
| "re_exec r (x # xs) =
     (case rm r (x # xs) Map.empty of [] \<Rightarrow> re_exec r xs | q # _ \<Rightarrow> Some (snd q))"

definition re_test :: "re \<Rightarrow> jsstring \<Rightarrow> bool" where
  "re_test r s = (re_exec r s \<noteq> None)"

section \<open>utils/security.ts\<close>

subsection \<open>sanitizeUrl\<close>

text \<open>
  \<^verbatim>\<open>url.replace(/[;&|`$(){}[\]\\]/g, "")\<close>: every code unit of the class is deleted.
  The class holds \<open>; & | ` $ ( ) { } [ ]\<close> and the backslash (0x5C).
\<close>

definition shell_meta :: "jschar \<Rightarrow> bool" where
  "shell_meta c \<longleftrightarrow> c \<in> set (js '';&|`$(){}[]'' @ [0x5C])"

definition sanitizeUrl :: "jsstring \<Rightarrow> jsstring" where
  "sanitizeUrl url = filter (\<lambda>c. \<not> shell_meta c) url"

subsection \<open>validateCommandArgs\<close>

record validation =
  isValid :: bool
  errors :: "jsstring list option"
  sanitizedArgs :: "jsstring list option"

text \<open>
  The seven patterns of \<open>dangerousPatterns\<close>, in the order of the source:
  \<^verbatim>\<open>/\$\(/  /`[^`]*`/  /&&/  /\|\|/  /;/  />/  /</\<close>.
  The second one is \<open>backtick_pair\<close>; 0x60 is the backtick.
\<close>

definition backtick_pair :: re where
  "backtick_pair = seqs [Chr 0x60, Star (Cls (\<lambda>c. c \<noteq> 0x60)), Chr 0x60]"

definition dangerousPatterns :: "re list" where
  "dangerousPatterns =
     [lit (js ''$(''),
      backtick_pair,
      lit (js ''&&''),
      lit (js ''||''),
      lit (js '';''),
      lit (js ''>''),
      lit (js ''<'')]"

definition hasDangerousPattern :: "jsstring \<Rightarrow> bool" where
  "hasDangerousPattern stringArg = list_ex (\<lambda>pattern. re_test pattern stringArg) dangerousPatterns"

definition is_control :: "jschar \<Rightarrow> bool" where
  "is_control c \<longleftrightarrow> c \<le> 0x1F \<or> (0x7F \<le> c \<and> c \<le> 0x9F)"

text \<open>
  \<^verbatim>\<open>stringArg.replace(/[\x00-\x1f\x7f-\x9f]/g, '').trim()\<close>
\<close>

definition sanitizeArg :: "jsstring \<Rightarrow> jsstring" where
  "sanitizeArg stringArg = trim (filter (\<lambda>c. \<not> is_control c) stringArg)"

text \<open>
  The loop over \<open>args\<close> with its two accumulators. An argument is \<open>None\<close> when it is
  \<open>null\<close> or \<open>undefined\<close> (the source tests \<open>arg == null\<close> although the parameter is
  typed \<open>string[]\<close>); \<open>String(arg)\<close> is the identity on a string. Every \<open>continue\<close>
  is a recursive call that leaves \<open>sanitizedArgs\<close> as it is.
\<close>

fun validate_loop ::
  "jsstring option list \<Rightarrow> jsstring list \<Rightarrow> jsstring list \<Rightarrow> jsstring list \<times> jsstring list" where
  "validate_loop [] errs san = (errs, san)"
| "validate_loop (None # args) errs san =
     validate_loop args (errs @ [js ''Argument cannot be null or undefined'']) san"
| "validate_loop (Some stringArg # args) errs san =
     (if length stringArg > 2000 then
        validate_loop args
          (errs @ [js ''Argument too long: '' @ show_nat (length stringArg) @ js '' characters'']) san
      else if hasDangerousPattern stringArg then
        validate_loop args
          (errs @ [js ''Potentially dangerous pattern in argument: '' @ stringArg]) san
      else if length (sanitizeArg stringArg) = 0 \<and> length stringArg > 0 then
        validate_loop args (errs @ [js ''Argument became empty after sanitization'']) san
      else validate_loop args errs (san @ [sanitizeArg stringArg]))"

definition validateCommandArgs :: "jsstring option list \<Rightarrow> validation" where
  "validateCommandArgs args =
     (case validate_loop args [] [] of (errs, san) \<Rightarrow>
        \<lparr>isValid = (length errs = 0),
         errors = (if length errs > 0 then Some errs else None),
         sanitizedArgs = (if length errs = 0 then Some san else None)\<rparr>)"

subsection \<open>URL checks\<close>

text \<open>
  \<^verbatim>\<open>new URL(url)\<close> is the platform's URL parser, not code of this repository. The
  functions that call it take it as the parameter \<open>parse\<close>; \<open>None\<close> stands for the
  \<open>TypeError\<close> it throws on a string that is not a URL. Of the parsed URL the sources read
  \<open>hostname\<close> and \<open>pathname\<close> only.
\<close>

record URL =
  hostname :: jsstring
  pathname :: jsstring

type_synonym url_parser = "jsstring \<Rightarrow> URL option"

text \<open>
  For evaluation at concrete inputs: the parser on plain \<open>https\<close> URLs, that is
  \<open>https://host/path\<close> with a host of lower-case letters and dots and a path of lower-case
  letters, digits, hyphens and slashes. On these the platform's parser returns the host
  and the path as they are written (\<open>/\<close> for no path). Other strings are outside this
  fragment and get \<open>None\<close> here.
\<close>

definition plain_host_char :: "jschar \<Rightarrow> bool" where
  "plain_host_char c \<longleftrightarrow> (0x61 \<le> c \<and> c \<le> 0x7A) \<or> c = 0x2E"

definition plain_path_char :: "jschar \<Rightarrow> bool" where
  "plain_path_char c \<longleftrightarrow> (0x61 \<le> c \<and> c \<le> 0x7A) \<or> is_digit c \<or> c = 0x2D \<or> c = 0x2F"

definition parse_plain_https :: url_parser where
  "parse_plain_https s =
     (if startsWith s (js ''https://'') then
        (let rest = drop 8 s;
             host = takeWhile (\<lambda>c. c \<noteq> 0x2F) rest;
             path = dropWhile (\<lambda>c. c \<noteq> 0x2F) rest
         in if host \<noteq> [] \<and> list_all plain_host_char host \<and> list_all plain_path_char path
            then Some \<lparr>hostname = host, pathname = (if path = [] then js ''/'' else path)\<rparr>
            else None)
      else None)"

text \<open>
  \<open>SoundCloudUrlSchema.parse\<close>: zod's \<open>.url()\<close> check passes exactly when \<open>new URL\<close>
  does not throw; the refinement then looks the host name up in \<open>validDomains\<close>. \<open>Inl\<close>
  carries the message of the first issue, \<open>Inr\<close> the validated string.
\<close>

definition validDomains :: "jsstring list" where
  "validDomains =
     [js ''soundcloud.com'', js ''www.soundcloud.com'', js ''m.soundcloud.com'',
      js ''mobile.soundcloud.com'', js ''on.soundcloud.com'']"

definition SoundCloudUrlSchema :: "url_parser \<Rightarrow> jsstring \<Rightarrow> jsstring + jsstring" where
  "SoundCloudUrlSchema parse url =
     (case parse url of
        None \<Rightarrow> Inl (js ''Invalid URL format'')
      | Some parsed \<Rightarrow>
          if hostname parsed \<in> set validDomains then Inr url
          else Inl (js ''Must be a valid SoundCloud URL''))"

text \<open>\<open>detectSoundCloudUrlType\<close> returns the pair \<open>(type, isValid)\<close>.\<close>

definition detectSoundCloudUrlType :: "url_parser \<Rightarrow> jsstring \<Rightarrow> jsstring \<times> bool" where
  "detectSoundCloudUrlType parse url =
     (case parse url of
        None \<Rightarrow> (js ''invalid'', False)
      | Some parsed \<Rightarrow>
          (let pathname = pathname parsed in
           if hostname parsed = js ''on.soundcloud.com'' then (js ''shortened'', True)
           else if startsWith pathname (js ''/discover'') \<or> startsWith pathname (js ''/explore'')
             then (js ''discover'', False)
           else if startsWith pathname (js ''/search'') then (js ''search'', False)
           else if includes_str pathname (js ''/sets/'') then (js ''playlist'', True)
           else if includes_str pathname (js ''/albums/'') then (js ''album'', True)
           else
             (let pathSegments = filter (\<lambda>segment. length segment > 0) (split 0x2F pathname) in
              if length pathSegments \<ge> 2 then
                (if length pathSegments = 1 then (js ''user'', False) else (js ''track'', True))
              else if length pathSegments = 1 then (js ''user'', False)
              else (js ''unknown'', False))))"

section \<open>soundcloud-downloader.tsx\<close>

subsection \<open>Types\<close>

text \<open>
  Optional properties are \<open>option\<close>s. Numbers that the modelled code computes are exact
  here: a percentage is a rational, a track index a natural number. \<open>track_id\<close> is the
  property \<open>id\<close>.
\<close>

record TrackInfo =
  title :: "jsstring option"
  uploader :: "jsstring option"
  duration :: "rat option"
  view_count :: "rat option"
  like_count :: "rat option"
  description :: "jsstring option"
  upload_date :: "jsstring option"
  thumbnail :: "jsstring option"
  webpage_url :: "jsstring option"
  track_id :: "jsstring option"
  playlist_title :: "jsstring option"
  playlist_count :: "rat option"
  playlist_index :: "rat option"

record DownloadProgress =
  percentage :: "rat option"
  speed :: "jsstring option"
  eta :: "jsstring option"
  downloaded :: "jsstring option"
  total :: "jsstring option"
  currentTrack :: "nat option"
  totalTracks :: "nat option"
  trackTitle :: "jsstring option"
  elapsedTime :: "jsstring option"

record OperationState =
  isActive :: bool
  progress :: DownloadProgress
  trackInfo :: "TrackInfo option"
  error :: "jsstring option"
  isCompleted :: bool
  downloadedFiles :: "jsstring list"

text \<open>
  \<open>Partial<OperationState>\<close>: each key is present (\<open>Some\<close>) or absent (\<open>None\<close>). The keys
  \<open>trackInfo\<close> and \<open>error\<close> can be present with the value \<open>null\<close>, which is \<open>Some None\<close>.
\<close>

record PartialState =
  p_isActive :: "bool option"
  p_progress :: "DownloadProgress option"
  p_trackInfo :: "TrackInfo option option"
  p_error :: "jsstring option option"
  p_isCompleted :: "bool option"
  p_downloadedFiles :: "jsstring list option"

definition no_keys :: PartialState where
  "no_keys = \<lparr>p_isActive = None, p_progress = None, p_trackInfo = None, p_error = None,
              p_isCompleted = None, p_downloadedFiles = None\<rparr>"

definition no_progress :: DownloadProgress where
  "no_progress = \<lparr>percentage = None, speed = None, eta = None, downloaded = None, total = None,
                  currentTrack = None, totalTracks = None, trackTitle = None,
                  elapsedTime = None\<rparr>"

definition keys_of :: "PartialState \<Rightarrow> string set" where
  "keys_of p =
     (if p_isActive p = None then {} else {''isActive''}) \<union>
     (if p_progress p = None then {} else {''progress''}) \<union>
     (if p_trackInfo p = None then {} else {''trackInfo''}) \<union>
     (if p_error p = None then {} else {''error''}) \<union>
     (if p_isCompleted p = None then {} else {''isCompleted''}) \<union>
     (if p_downloadedFiles p = None then {} else {''downloadedFiles''})"

text \<open>The object spread \<open>{ ...currentState, ...updates }\<close>.\<close>

definition spread :: "OperationState \<Rightarrow> PartialState \<Rightarrow> OperationState" where
  "spread currentState updates =
     \<lparr>isActive = (case p_isActive updates of None \<Rightarrow> isActive currentState | Some v \<Rightarrow> v),
      progress = (case p_progress updates of None \<Rightarrow> progress currentState | Some v \<Rightarrow> v),
      trackInfo = (case p_trackInfo updates of None \<Rightarrow> trackInfo currentState | Some v \<Rightarrow> v),
      error = (case p_error updates of None \<Rightarrow> error currentState | Some v \<Rightarrow> v),
      isCompleted = (case p_isCompleted updates of None \<Rightarrow> isCompleted currentState | Some v \<Rightarrow> v),
      downloadedFiles =
        (case p_downloadedFiles updates of None \<Rightarrow> downloadedFiles currentState | Some v \<Rightarrow> v)\<rparr>"

text \<open>
  The merge a caller makes of two partial updates before a single \<open>update\<close>, that is
  \<open>{ ...p1, ...p2 }\<close>: this definition follows the words of the specification, for the
  comparison with two updates in sequence.
\<close>

definition caller_merge :: "PartialState \<Rightarrow> PartialState \<Rightarrow> PartialState" where
  "caller_merge p1 p2 =
     \<lparr>p_isActive = (case p_isActive p2 of None \<Rightarrow> p_isActive p1 | Some v \<Rightarrow> Some v),
      p_progress = (case p_progress p2 of None \<Rightarrow> p_progress p1 | Some v \<Rightarrow> Some v),
      p_trackInfo = (case p_trackInfo p2 of None \<Rightarrow> p_trackInfo p1 | Some v \<Rightarrow> Some v),
      p_error = (case p_error p2 of None \<Rightarrow> p_error p1 | Some v \<Rightarrow> Some v),
      p_isCompleted = (case p_isCompleted p2 of None \<Rightarrow> p_isCompleted p1 | Some v \<Rightarrow> Some v),
      p_downloadedFiles =
        (case p_downloadedFiles p2 of None \<Rightarrow> p_downloadedFiles p1 | Some v \<Rightarrow> Some v)\<rparr>"

subsection \<open>The global operation store\<close>

text \<open>
  \<open>globalOperations\<close> and \<open>globalListeners\<close> are the two module-level \<open>Map\<close>s. A listener
  set is a JavaScript \<open>Set\<close>: no duplicates, iterated in insertion order, hence a list. A
  callback is known by its identity; what it does when called is outside the store, so a
  call is recorded in \<open>calls\<close> (oldest first) with the state it received.
\<close>

type_synonym callback = nat

record store =
  globalOperations :: "jsstring \<rightharpoonup> OperationState"
  globalListeners :: "jsstring \<rightharpoonup> callback list"
  calls :: "(callback \<times> OperationState) list"

definition empty_store :: store where
  "empty_store = \<lparr>globalOperations = Map.empty, globalListeners = Map.empty, calls = []\<rparr>"

definition default_state :: OperationState where
  "default_state =
     \<lparr>isActive = False, progress = no_progress, trackInfo = None, error = None,
      isCompleted = False, downloadedFiles = []\<rparr>"

definition subscribeToOperation :: "jsstring \<Rightarrow> callback \<Rightarrow> store \<Rightarrow> store" where
  "subscribeToOperation operationId callback st =
     (let listeners = (case globalListeners st operationId of None \<Rightarrow> [] | Some ls \<Rightarrow> ls);
          st1 = st\<lparr>globalListeners := (globalListeners st)
                   (operationId \<mapsto> (if callback \<in> set listeners then listeners
                                    else listeners @ [callback]))\<rparr>
      in case globalOperations st1 operationId of
           None \<Rightarrow> st1
         | Some currentState \<Rightarrow> st1\<lparr>calls := calls st1 @ [(callback, currentState)]\<rparr>)"

text \<open>The function that \<open>subscribeToOperation\<close> returns.\<close>

definition unsubscribe :: "jsstring \<Rightarrow> callback \<Rightarrow> store \<Rightarrow> store" where
  "unsubscribe operationId callback st =
     (case globalListeners st operationId of
        None \<Rightarrow> st
      | Some listeners \<Rightarrow>
          (let listeners' = removeAll callback listeners in
           if length listeners' = 0
           then st\<lparr>globalListeners := (globalListeners st)(operationId := None)\<rparr>
           else st\<lparr>globalListeners := (globalListeners st)(operationId \<mapsto> listeners')\<rparr>))"

definition updateOperationState :: "jsstring \<Rightarrow> PartialState \<Rightarrow> store \<Rightarrow> store" where
  "updateOperationState operationId updates st =
     (let currentState =
            (case globalOperations st operationId of None \<Rightarrow> default_state | Some s \<Rightarrow> s);
          newState = spread currentState updates;
          st1 = st\<lparr>globalOperations := (globalOperations st)(operationId \<mapsto> newState)\<rparr>
      in case globalListeners st1 operationId of
           None \<Rightarrow> st1
         | Some listeners \<Rightarrow>
             st1\<lparr>calls := calls st1 @ map (\<lambda>callback. (callback, newState)) listeners\<rparr>)"

subsection \<open>parseProgress\<close>

text \<open>
  The three regular expressions of \<open>parseProgress\<close>, group by group:
  \<^verbatim>\<open>/\[download\]\s+(\d+\.\d+)%\s+of\s+([\d.]+\w+)\s+at\s+([\d.]+\w+\/s)(?:\s+ETA\s+(\d+:\d+))?/\<close>
  \<^verbatim>\<open>/\[download\]\s+Downloading\s+(?:video\s+)?(\d+)\s+of\s+(\d+)/\<close>
  \<^verbatim>\<open>/\[info\]\s+([^:]+):\s+Downloading\s+webpage/\<close>
\<close>

definition spaces :: re where
  "spaces = OneOrMore (Cls is_space)"

definition number :: re where
  "number = OneOrMore (Cls is_digit)"

definition digits_or_dots :: re where
  "digits_or_dots = OneOrMore (Cls (\<lambda>c. is_digit c \<or> c = 0x2E))"

definition downloadRe :: re where
  "downloadRe =
     seqs [lit (js ''[download]''), spaces,
           Grp 1 (seqs [number, Chr 0x2E, number]), lit (js ''%''), spaces,
           lit (js ''of''), spaces,
           Grp 2 (seqs [digits_or_dots, OneOrMore (Cls is_word)]), spaces,
           lit (js ''at''), spaces,
           Grp 3 (seqs [digits_or_dots, OneOrMore (Cls is_word), lit (js ''/s'')]),
           Opt (seqs [spaces, lit (js ''ETA''), spaces,
                      Grp 4 (seqs [number, lit (js '':''), number])])]"

definition playlistRe :: re where
  "playlistRe =
     seqs [lit (js ''[download]''), spaces, lit (js ''Downloading''), spaces,
           Opt (seqs [lit (js ''video''), spaces]),
           Grp 1 number, spaces, lit (js ''of''), spaces, Grp 2 number]"

definition titleRe :: re where
  "titleRe =
     seqs [lit (js ''[info]''), spaces,
           Grp 1 (OneOrMore (Cls (\<lambda>c. c \<noteq> 0x3A))), lit (js '':''), spaces,
           lit (js ''Downloading''), spaces, lit (js ''webpage'')]"

text \<open>
  \<open>parseFloat\<close> on the text of the group \<open>\d+\.\d+\<close> and \<open>parseInt\<close> on the text of a
  group \<open>\d+\<close>. The model keeps the decimal value itself where JavaScript keeps the
  nearest double.
\<close>

definition parseFloat :: "jsstring \<Rightarrow> rat" where
  "parseFloat s =
     (let whole = takeWhile is_digit s;
          frac = takeWhile is_digit (drop (length whole + 1) s)
      in of_nat (digits_val whole) + of_nat (digits_val frac) / 10 ^ length frac)"

definition parseInt :: "jsstring \<Rightarrow> nat" where
  "parseInt s = digits_val (takeWhile is_digit s)"

definition parseProgress :: "jsstring \<Rightarrow> DownloadProgress" where
  "parseProgress line =
     (case re_exec downloadRe line of
        Some downloadMatch \<Rightarrow>
          no_progress
            \<lparr>percentage := map_option parseFloat (downloadMatch 1),
             total := downloadMatch 2,
             speed := downloadMatch 3,
             eta := (case downloadMatch 4 of
                       None \<Rightarrow> None
                     | Some e \<Rightarrow> if length e = 0 then None else Some e)\<rparr>
      | None \<Rightarrow>
          (case re_exec playlistRe line of
             Some playlistMatch \<Rightarrow>
               no_progress
                 \<lparr>currentTrack := map_option parseInt (playlistMatch 1),
                  totalTracks := map_option parseInt (playlistMatch 2)\<rparr>
           | None \<Rightarrow>
               (case re_exec titleRe line of
                  Some titleMatch \<Rightarrow> no_progress\<lparr>trackTitle := map_option trim (titleMatch 1)\<rparr>
                | None \<Rightarrow> no_progress)))"

subsection \<open>calculateElapsedTime\<close>

text \<open>
  \<open>Date.now()\<close> is the parameter \<open>now\<close> (milliseconds, an integer). \<open>Math.floor\<close> of a
  quotient of integers is \<open>div\<close>; \<open>%\<close> is the remainder that takes the sign of the
  dividend; \<open>padStart(2, '0')\<close> fills a shorter string from the left.
\<close>

definition js_rem :: "int \<Rightarrow> int \<Rightarrow> int" where
  "js_rem a b = sgn a * (\<bar>a\<bar> mod \<bar>b\<bar>)"

definition padStart2 :: "jsstring \<Rightarrow> jsstring" where
  "padStart2 s = replicate (2 - length s) 0x30 @ s"

definition calculateElapsedTime :: "int \<Rightarrow> int \<Rightarrow> jsstring" where
  "calculateElapsedTime now startTime =
     (let elapsed = (now - startTime) div 1000;
          minutes = elapsed div 60;
          seconds = js_rem elapsed 60
      in show_int minutes @ js '':'' @ padStart2 (show_int seconds))"

subsection \<open>The close handler of the download process\<close>

text \<open>
  The handler closes over \<open>operationId\<close>, \<open>startTime\<close>, \<open>currentProgress\<close> and
  the local array \<open>downloadedFiles\<close> (here \<open>files\<close>); they are parameters, with the
  clock. \<open>code\<close> is \<open>None\<close> when
  the runtime reports \<open>null\<close> (the process was ended by a signal). What the handler does
  to the store is modelled; the toast and the hand-off to the Music application come after
  the update and do not touch the store.
\<close>

definition show_code :: "int option \<Rightarrow> jsstring" where
  "show_code code = (case code of None \<Rightarrow> js ''null'' | Some c \<Rightarrow> show_int c)"

definition onClose ::
  "jsstring \<Rightarrow> int \<Rightarrow> int \<Rightarrow> DownloadProgress \<Rightarrow> jsstring list \<Rightarrow> int option \<Rightarrow> store \<Rightarrow> store" where
  "onClose operationId startTime now currentProgress files code st =
     (if code = Some 0 \<or> length files > 0 then
        (let finalElapsedTime = calculateElapsedTime now startTime in
         updateOperationState operationId
           (no_keys
              \<lparr>p_isActive := Some False,
               p_isCompleted := Some True,
               p_progress := Some (currentProgress
                                    \<lparr>percentage := Some 100,
                                     elapsedTime := Some finalElapsedTime\<rparr>),
               p_downloadedFiles := Some files\<rparr>) st)
      else
        (let errorMessage = js ''Download failed with exit code '' @ show_code code in
         updateOperationState operationId
           (no_keys\<lparr>p_isActive := Some False, p_error := Some (Some errorMessage)\<rparr>) st))"

subsection \<open>Starting a download\<close>

datatype quality = high | medium | low

record settings =
  quality :: quality
  downloadPath :: jsstring
  openInAppleMusic :: bool
  embedThumbnail :: bool
  addMetadata :: bool

text \<open>The \<open>args\<close> of \<open>QUALITY_PRESETS\<close>.\<close>

fun QUALITY_PRESETS_args :: "quality \<Rightarrow> jsstring list" where
  "QUALITY_PRESETS_args high =
     [js ''-f'', js ''best[abr<=192]/best'', js ''--audio-quality'', js ''0'',
      js ''--audio-format'', js ''mp3'']"
| "QUALITY_PRESETS_args medium =
     [js ''-f'', js ''best[abr<=128]/best'', js ''--audio-quality'', js ''5'',
      js ''--audio-format'', js ''mp3'']"
| "QUALITY_PRESETS_args low =
     [js ''-f'', js ''best[abr<=96]/best'', js ''--audio-quality'', js ''9'',
      js ''--audio-format'', js ''mp3'']"

text \<open>
  What the start of a download does to the outside: toasts, the spawn of a child process
  and the navigation to the progress view. The environment supplies the URL parser, the
  file system test \<open>existsSync\<close> and the identifier that \<open>generateOperationId\<close> makes from
  the clock and a random number.
\<close>

datatype toast_style = Success | Failure | Animated

datatype effect =
    Toast toast_style jsstring jsstring
  | Spawn jsstring "jsstring list"
  | Push jsstring

record env =
  parseURL :: url_parser
  existsSync :: "jsstring \<Rightarrow> bool"
  newOperationId :: jsstring

definition isValidSoundCloudUrl :: "url_parser \<Rightarrow> jsstring \<Rightarrow> bool" where
  "isValidSoundCloudUrl parse url =
     (case parse url of
        None \<Rightarrow> False
      | Some parsed \<Rightarrow>
          hostname parsed = js ''soundcloud.com'' \<or> hostname parsed = js ''www.soundcloud.com'')"

definition isPlaylistUrl :: "jsstring \<Rightarrow> bool" where
  "isPlaylistUrl url \<longleftrightarrow> includes_str url (js ''/sets/'') \<or> includes_str url (js ''/albums/'')"

definition getYtDlpPath :: "(jsstring \<Rightarrow> bool) \<Rightarrow> jsstring" where
  "getYtDlpPath exists =
     (case filter exists
             [js ''/opt/homebrew/bin/yt-dlp'', js ''/usr/local/bin/yt-dlp'',
              js ''/usr/bin/yt-dlp'', js ''yt-dlp''] of
        [] \<Rightarrow> js ''yt-dlp''
      | path # _ \<Rightarrow> path)"

text \<open>The argument vector that \<open>executeBackgroundDownload\<close> builds, push by push.\<close>

definition build_args :: "settings \<Rightarrow> jsstring \<Rightarrow> jsstring \<Rightarrow> bool \<Rightarrow> jsstring list" where
  "build_args settings sanitizedUrl safePath isPlaylist =
     [js ''--extract-flat'', js ''false''] @
     [js ''-o'', safePath @ js ''/%(title)s.%(ext)s''] @
     QUALITY_PRESETS_args (quality settings) @
     [js ''--add-metadata''] @
     (if isPlaylist then [js ''--parse-metadata'', js ''playlist_title:%(album)s'']
      else [js ''--parse-metadata'', js ''title:%(album)s'']) @
     [js ''--postprocessor-args'', js ''ffmpeg:-metadata genre='' @ [0x22] @ js ''Electronic'' @ [0x22]] @
     (if embedThumbnail settings then [js ''--embed-thumbnail'', js ''--no-write-thumbnail'']
      else []) @
     [js ''--no-write-info-json'', js ''--no-write-description'', js ''--no-write-annotations'',
      js ''--no-write-comments''] @
     [js ''--embed-subs'', js ''--no-write-subs''] @
     [js ''--newline'', js ''--no-warnings'', js ''--ignore-errors''] @
     [sanitizedUrl]"

text \<open>
  \<open>executeBackgroundDownload\<close> up to the spawn. It is an \<open>async\<close> function with no
  \<open>await\<close> before the spawn, so this part runs inside the call. A failed validation
  throws, and the \<open>catch\<close> block records the error and shows the failure toast. After a
  spawn the timer and the handlers of the process take over (\<open>onClose\<close> above).
  \<open>errors?.join(", ")\<close> of absent errors is rendered \<open>undefined\<close> by the template.
\<close>

definition executeBackgroundDownload ::
  "env \<Rightarrow> settings \<Rightarrow> jsstring \<Rightarrow> jsstring \<Rightarrow> jsstring \<Rightarrow> bool \<Rightarrow> store \<Rightarrow> effect list \<times> store" where
  "executeBackgroundDownload env settings operationId sanitizedUrl safePath isPlaylist st =
     (let st1 = updateOperationState operationId
                  (no_keys\<lparr>p_isActive := Some True, p_error := Some None,
                           p_progress := Some (no_progress\<lparr>elapsedTime := Some (js ''0:00'')\<rparr>)\<rparr>) st;
          ytDlpPath = getYtDlpPath (existsSync env);
          args = build_args settings sanitizedUrl safePath isPlaylist;
          finalArgValidation = validateCommandArgs (map Some args)
      in case (if isValid finalArgValidation then sanitizedArgs finalArgValidation else None) of
           None \<Rightarrow>
             (let errorMessage = js ''Invalid command arguments: '' @
                    (case errors finalArgValidation of
                       None \<Rightarrow> js ''undefined''
                     | Some es \<Rightarrow> join (js '', '') es)
              in ([Toast Failure (js ''Download Error'') errorMessage],
                  updateOperationState operationId
                    (no_keys\<lparr>p_isActive := Some False, p_error := Some (Some errorMessage)\<rparr>) st1))
         | Some sanitized \<Rightarrow> ([Spawn ytDlpPath sanitized], st1))"

text \<open>
  \<open>!v.isValid || !v.sanitizedArgs?.[0]\<close>: the first sanitized argument, unless the
  validation failed or that argument is missing or the empty string.
\<close>

definition first_sanitized :: "validation \<Rightarrow> jsstring option" where
  "first_sanitized v =
     (if isValid v then
        (case sanitizedArgs v of
           Some (a # _) \<Rightarrow> if length a = 0 then None else Some a
         | _ \<Rightarrow> None)
      else None)"

text \<open>
  \<open>handleDownload\<close> with the form's \<open>url\<close> and \<open>settings\<close>. The two early returns and the
  \<open>catch\<close> block each show a failure toast. The React state setters and
  \<open>optimizePerformance\<close> (timers and a log line) have no part in what is modelled.
\<close>

definition handleDownload :: "env \<Rightarrow> settings \<Rightarrow> jsstring \<Rightarrow> store \<Rightarrow> effect list \<times> store" where
  "handleDownload env settings url st =
     (if length (trim url) = 0 then
        ([Toast Failure (js ''Error'') (js ''Please enter a SoundCloud URL'')], st)
      else if \<not> isValidSoundCloudUrl (parseURL env) url then
        ([Toast Failure (js ''Invalid URL'') (js ''Please enter a valid SoundCloud URL'')], st)
      else
        (case first_sanitized (validateCommandArgs [Some url]) of
           None \<Rightarrow> ([Toast Failure (js ''Download Error'') (js ''Invalid URL format'')], st)
         | Some sanitizedUrl \<Rightarrow>
             (let isPlaylist = isPlaylistUrl sanitizedUrl in
              case first_sanitized (validateCommandArgs [Some (downloadPath settings)]) of
                None \<Rightarrow> ([Toast Failure (js ''Download Error'') (js ''Invalid download path'')], st)
              | Some safePath \<Rightarrow>
                  (let operationId = newOperationId env;
                       started = executeBackgroundDownload env settings operationId sanitizedUrl
                                   safePath isPlaylist st
                   in ([Toast Animated
                          (if isPlaylist then js ''Starting Playlist Download''
                           else js ''Starting Download'')
                          (js ''Initializing...'')] @
                       fst started @ [Push operationId],
                       snd started)))))"

section \<open>Notions used in the statements\<close>

text \<open>
  The three grounds on which the loop of \<open>validateCommandArgs\<close> refuses a string, the
  same for a \<open>null\<close> entry, and the sanitized strings the loop collects.
\<close>

definition rejected :: "jsstring \<Rightarrow> bool" where
  "rejected a \<longleftrightarrow>
     length a > 2000 \<or> hasDangerousPattern a \<or> (length (sanitizeArg a) = 0 \<and> length a > 0)"

definition bad_arg :: "jsstring option \<Rightarrow> bool" where
  "bad_arg x = (case x of None \<Rightarrow> True | Some a \<Rightarrow> rejected a)"

definition accepted :: "jsstring option list \<Rightarrow> jsstring list" where
  "accepted args =
     concat (map (\<lambda>x. case x of
                         None \<Rightarrow> []
                       | Some a \<Rightarrow> if rejected a then [] else [sanitizeArg a]) args)"

text \<open>An environment and settings for evaluation at concrete inputs.\<close>

definition demo_env :: env where
  "demo_env =
     \<lparr>parseURL = parse_plain_https, existsSync = (\<lambda>path. False),
      newOperationId = js ''download_1''\<rparr>"

definition demo_settings :: settings where
  "demo_settings =
     \<lparr>quality = high, downloadPath = js ''/etc'', openInAppleMusic = True,
      embedThumbnail = True, addMetadata = True\<rparr>"

section \<open>What the dangerous patterns match\<close>

text \<open>
  A pattern that is a literal matches exactly the strings that contain it, and
  \<open>backtick_pair\<close> matches exactly the strings with at least two backticks. This reads
  \<open>hasDangerousPattern\<close> without the matcher.
\<close>

lemma rm_Seq_Eps: "rm (Seq r Eps) s c = rm r s c"
  by simp

lemma rm_lit: "rm (lit p) s c = (if startsWith s p then [(drop (length p) s, c)] else [])"
proof (induction p arbitrary: s)
  case Nil
  then show ?case by (simp add: lit_def seqs_def)
next
  case (Cons a p)
  have "lit (a # p) = Seq (Chr a) (lit p)"
    by (simp add: lit_def seqs_def)
  with Cons show ?case
    by (cases s) simp_all
qed

lemma re_test_lit: "re_test (lit p) s = includes_str s p"
proof (induction s)
  case Nil
  then show ?case
    by (cases p) (simp_all add: re_test_def rm_lit)
next
  case (Cons x xs)
  then show ?case
    by (simp add: re_test_def rm_lit)
qed

lemma rm_Star_Cls_Cons:
  "rm (Star (Cls P)) (x # xs) c =
     (if P x then rm (Star (Cls P)) xs c @ [(x # xs, c)] else [(x # xs, c)])"
  by (subst rm.simps(6)) (simp del: rm.simps(6))

lemma rm_Star_Nil: "rm (Star r) [] c = [([], c)]"
  by (subst rm.simps(6)) (simp del: rm.simps(6))

lemma rm_until:
  "(concat (map (\<lambda>q. rm (Chr a) (fst q) (snd q)) (rm (Star (Cls (\<lambda>c. c \<noteq> a))) s c)) \<noteq> [])
   \<longleftrightarrow> a \<in> set s"
proof (induction s)
  case Nil
  then show ?case by (simp add: rm_Star_Nil del: rm.simps(6))
next
  case (Cons x xs)
  then show ?case
    by (cases "x = a") (simp_all add: rm_Star_Cls_Cons del: rm.simps(6))
qed

lemma rm_backtick_pair:
  "(rm backtick_pair s c \<noteq> []) \<longleftrightarrow> (\<exists>rest. s = 0x60 # rest \<and> 0x60 \<in> set rest)"
proof (cases s)
  case Nil
  then show ?thesis by (simp add: backtick_pair_def seqs_def del: rm.simps(6))
next
  case (Cons x xs)
  have "rm backtick_pair (x # xs) c =
      (if x = 0x60
       then concat (map (\<lambda>q. rm (Chr 0x60) (fst q) (snd q)) (rm (Star (Cls (\<lambda>c. c \<noteq> 0x60))) xs c))
       else [])"
    by (simp add: backtick_pair_def seqs_def del: rm.simps(6))
  with Cons rm_until [of "0x60" xs c] show ?thesis
    by (simp del: rm.simps)
qed

lemma re_test_backtick_pair: "re_test backtick_pair s \<longleftrightarrow> 2 \<le> count_list s 0x60"
proof (induction s)
  case Nil
  have "rm backtick_pair [] Map.empty = []"
    using rm_backtick_pair [of "[]" Map.empty] by simp
  then show ?case by (simp add: re_test_def)
next
  case (Cons x xs)
  have m: "0x60 \<in> set xs \<longleftrightarrow> 1 \<le> count_list xs 0x60"
    using count_list_0_iff [of xs "0x60"] by auto
  show ?case
  proof (cases "rm backtick_pair (x # xs) Map.empty")
    case Nil
    then have "\<not> (x = 0x60 \<and> 0x60 \<in> set xs)"
      using rm_backtick_pair [of "x # xs" Map.empty] by simp
    with Nil Cons m show ?thesis
      by (auto simp: re_test_def)
  next
    case (Cons q qs)
    then have "x = 0x60 \<and> 0x60 \<in> set xs"
      using rm_backtick_pair [of "x # xs" Map.empty] by simp
    with Cons m show ?thesis
      by (auto simp: re_test_def)
  qed
qed

lemma hasDangerousPattern_iff:
  "hasDangerousPattern s \<longleftrightarrow>
     includes_str s (js ''$('') \<or> 2 \<le> count_list s 0x60 \<or> includes_str s (js ''&&'') \<or>
     includes_str s (js ''||'') \<or> includes_str s (js '';'') \<or> includes_str s (js ''>'') \<or>
     includes_str s (js ''<'')"
  using re_test_backtick_pair [of s]
  by (simp add: hasDangerousPattern_def dangerousPatterns_def re_test_lit backtick_pair_def)

lemma rejected_iff:
  "rejected a \<longleftrightarrow>
     length a > 2000 \<or>
     includes_str a (js ''$('') \<or> 2 \<le> count_list a 0x60 \<or> includes_str a (js ''&&'') \<or>
     includes_str a (js ''||'') \<or> includes_str a (js '';'') \<or> includes_str a (js ''>'') \<or>
     includes_str a (js ''<'') \<or>
     (a \<noteq> [] \<and> trim (filter (\<lambda>c. \<not> is_control c) a) = [])"
  by (auto simp: rejected_def hasDangerousPattern_iff sanitizeArg_def)

section \<open>Properties of validateCommandArgs\<close>

lemma validate_loop_san:
  "snd (validate_loop args errs san) = san @ accepted args"
  by (induction args errs san rule: validate_loop.induct)
     (simp_all add: accepted_def rejected_def)

lemma validate_loop_errs:
  "length (fst (validate_loop args errs san)) = length errs + length (filter bad_arg args)"
  by (induction args errs san rule: validate_loop.induct)
     (simp_all add: bad_arg_def rejected_def)

lemma accepted_all_good:
  "\<not> list_ex bad_arg args \<Longrightarrow> accepted args = map (\<lambda>x. sanitizeArg (the x)) args"
  by (induction args) (auto simp: accepted_def bad_arg_def split: option.splits)

lemma isValid_iff: "isValid (validateCommandArgs args) \<longleftrightarrow> \<not> list_ex bad_arg args"
proof -
  obtain errs san where v: "validate_loop args [] [] = (errs, san)"
    by (cases "validate_loop args [] []")
  have "length errs = length (filter bad_arg args)"
    using validate_loop_errs [of args "[]" "[]"] v by simp
  then have "length errs = 0 \<longleftrightarrow> \<not> list_ex bad_arg args"
    by (simp add: list_ex_iff filter_empty_conv)
  then show ?thesis
    by (simp add: validateCommandArgs_def v)
qed

lemma sanitizedArgs_valid:
  assumes "\<not> list_ex bad_arg args"
  shows "sanitizedArgs (validateCommandArgs args) = Some (map (\<lambda>x. sanitizeArg (the x)) args)"
    and "errors (validateCommandArgs args) = None"
proof -
  obtain errs san where v: "validate_loop args [] [] = (errs, san)"
    by (cases "validate_loop args [] []")
  have "length errs = length (filter bad_arg args)"
    using validate_loop_errs [of args "[]" "[]"] v by simp
  with assms have e: "errs = []"
    by (simp add: list_ex_iff filter_empty_conv)
  have "san = accepted args"
    using validate_loop_san [of args "[]" "[]"] v by simp
  with assms have s: "san = map (\<lambda>x. sanitizeArg (the x)) args"
    by (simp add: accepted_all_good)
  show "sanitizedArgs (validateCommandArgs args) = Some (map (\<lambda>x. sanitizeArg (the x)) args)"
    by (simp add: validateCommandArgs_def v e s)
  show "errors (validateCommandArgs args) = None"
    by (simp add: validateCommandArgs_def v e)
qed

lemma sanitizedArgs_invalid:
  assumes "list_ex bad_arg args"
  shows "sanitizedArgs (validateCommandArgs args) = None"
    and "errors (validateCommandArgs args) \<noteq> None"
proof -
  obtain errs san where v: "validate_loop args [] [] = (errs, san)"
    by (cases "validate_loop args [] []")
  have "length errs = length (filter bad_arg args)"
    using validate_loop_errs [of args "[]" "[]"] v by simp
  with assms have e: "errs \<noteq> []"
    by (auto simp: list_ex_iff filter_empty_conv)
  show "sanitizedArgs (validateCommandArgs args) = None"
    by (simp add: validateCommandArgs_def v e)
  show "errors (validateCommandArgs args) \<noteq> None"
    by (simp add: validateCommandArgs_def v e)
qed

lemma list_ex_bad_Some: "list_ex bad_arg (map Some args) = list_ex rejected args"
  by (induction args) (simp_all add: bad_arg_def)

lemmas ev = hasDangerousPattern_def dangerousPatterns_def backtick_pair_def re_test_def lit_def seqs_def js_def
  sanitizeArg_def trim_def is_space_def is_control_def rejected_def validateCommandArgs_def

text \<open>
  C4 (as amended). For every list of strings, \<open>validateCommandArgs\<close> is all-or-nothing: if
  some argument is longer than 2000 code units, matches one of the dangerous patterns, or
  is not empty and becomes empty under the sanitization (control characters removed, then
  \<open>trim\<close>), which is \<open>rejected\<close> (spelled out in \<open>rejected_iff\<close>), the result has
  \<open>isValid = false\<close>, a list of errors and no \<open>sanitizedArgs\<close>;
  otherwise it has \<open>isValid = true\<close>, no errors and the list of the sanitized arguments.
\<close>

theorem validateCommandArgs_all_or_nothing:
  "(list_ex rejected args \<longrightarrow>
      isValid (validateCommandArgs (map Some args)) = False \<and>
      sanitizedArgs (validateCommandArgs (map Some args)) = None \<and>
      errors (validateCommandArgs (map Some args)) \<noteq> None) \<and>
   (\<not> list_ex rejected args \<longrightarrow>
      isValid (validateCommandArgs (map Some args)) = True \<and>
      sanitizedArgs (validateCommandArgs (map Some args)) = Some (map sanitizeArg args) \<and>
      errors (validateCommandArgs (map Some args)) = None)"
proof (cases "list_ex rejected args")
  case True
  then have b: "list_ex bad_arg (map Some args)" by (simp add: list_ex_bad_Some)
  show ?thesis
    using True isValid_iff [of "map Some args"] sanitizedArgs_invalid [OF b] b by simp
next
  case False
  then have b: "\<not> list_ex bad_arg (map Some args)" by (simp add: list_ex_bad_Some)
  show ?thesis
    using False isValid_iff [of "map Some args"] sanitizedArgs_valid [OF b] b
    by (simp add: comp_def)
qed

theorem validateCommandArgs_all_or_nothing_witness:
  "list_ex rejected [js ''-o'', js ''a;b''] \<and>
   isValid (validateCommandArgs [Some (js ''-o''), Some (js ''a;b'')]) = False \<and>
   sanitizedArgs (validateCommandArgs [Some (js ''-o''), Some (js ''a;b'')]) = None \<and>
   \<not> list_ex rejected [js ''-o'', js '' x ''] \<and>
   isValid (validateCommandArgs [Some (js ''-o''), Some (js '' x '')]) = True \<and>
   sanitizedArgs (validateCommandArgs [Some (js ''-o''), Some (js '' x '')]) = Some [js ''-o'', js ''x'']"
proof -
  have r1: "list_ex rejected [js ''-o'', js ''a;b'']" by (simp add: ev)
  have r2: "\<not> list_ex rejected [js ''-o'', js '' x '']" by (simp add: ev)
  have s: "map sanitizeArg [js ''-o'', js '' x ''] = [js ''-o'', js ''x'']" by (simp add: ev)
  show ?thesis
    using validateCommandArgs_all_or_nothing [of "[js ''-o'', js ''a;b'']"]
      validateCommandArgs_all_or_nothing [of "[js ''-o'', js '' x '']"] r1 r2 s
    by simp
qed

text \<open>
  C4 as it is written names the stripping of control characters only. A single space is
  not longer than 2000, matches no dangerous pattern and keeps its one character when the
  control characters are removed; the batch is refused all the same, because \<open>trim\<close>
  empties it.
\<close>

theorem validateCommandArgs_blank_counterexample:
  "\<not> length (js '' '') > 2000 \<and> \<not> hasDangerousPattern (js '' '') \<and>
   length (filter (\<lambda>c. \<not> is_control c) (js '' '')) \<noteq> 0 \<and>
   isValid (validateCommandArgs [Some (js '' '')]) = False \<and>
   sanitizedArgs (validateCommandArgs [Some (js '' '')]) = None"
  by (simp add: ev)

text \<open>
  C10. Whenever \<open>validateCommandArgs\<close> returns \<open>isValid = true\<close>, \<open>sanitizedArgs\<close> is
  present and has the length of the input, and its i-th entry is the i-th argument with
  the control characters U+0000 to U+001F and U+007F to U+009F removed and the
  surrounding white space trimmed: nothing is dropped or reordered.
\<close>

theorem validateCommandArgs_preserves_positions:
  assumes "isValid (validateCommandArgs args)"
  shows "\<exists>san. sanitizedArgs (validateCommandArgs args) = Some san \<and> length san = length args \<and>
           (\<forall>i<length args. \<exists>a. args ! i = Some a \<and>
              san ! i = trim (filter (\<lambda>c. \<not> is_control c) a))"
proof -
  from assms have good: "\<not> list_ex bad_arg args" by (simp add: isValid_iff)
  have each: "\<exists>a. args ! i = Some a" if "i < length args" for i
  proof (cases "args ! i")
    case None
    with nth_mem [OF that] good show ?thesis
      by (auto simp: list_ex_iff bad_arg_def)
  next
    case (Some a)
    then show ?thesis by simp
  qed
  show ?thesis
    using sanitizedArgs_valid(1) [OF good] each
    by (fastforce simp: sanitizeArg_def)
qed

theorem validateCommandArgs_preserves_positions_witness:
  "isValid (validateCommandArgs [Some (js ''-o''), Some (js '' x '')]) \<and>
   (\<exists>san. sanitizedArgs (validateCommandArgs [Some (js ''-o''), Some (js '' x '')]) = Some san \<and>
      length san = 2 \<and> san ! 0 = js ''-o'' \<and> san ! 1 = js ''x'')"
proof -
  have v: "isValid (validateCommandArgs [Some (js ''-o''), Some (js '' x '')])"
    by (simp add: ev)
  have t: "trim (filter (\<lambda>c. \<not> is_control c) (js ''-o'')) = js ''-o''"
     "trim (filter (\<lambda>c. \<not> is_control c) (js '' x '')) = js ''x''"
    by (simp_all add: ev)
  from validateCommandArgs_preserves_positions [OF v] obtain san where
    s: "sanitizedArgs (validateCommandArgs [Some (js ''-o''), Some (js '' x '')]) = Some san"
      "length san = 2"
      "\<forall>i<2. \<exists>a. [Some (js ''-o''), Some (js '' x '')] ! i = Some a \<and>
              san ! i = trim (filter (\<lambda>c. \<not> is_control c) a)"
    by auto
  from s(3) [rule_format, of 0] have "san ! 0 = js ''-o''" using t by auto
  moreover from s(3) [rule_format, of 1] have "san ! 1 = js ''x''" using t by auto
  ultimately show ?thesis using v s by auto
qed

section \<open>Properties of sanitizeUrl\<close>

lemma sanitizeUrl_idempotent: "sanitizeUrl (sanitizeUrl s) = sanitizeUrl s"
  by (simp add: sanitizeUrl_def)

text \<open>
  C2. \<open>sanitizeUrl\<close> is idempotent (\<open>sanitizeUrl_idempotent\<close>), but it does not keep a
  percent-parenthesis placeholder: the parentheses are in the class it deletes, so
  \<open>%(title)s.%(ext)s\<close> comes out as \<open>%titles.%exts\<close> and the placeholder \<open>%(title)s\<close>
  is gone. The comment above the function says that the template syntax is preserved.
\<close>

theorem sanitizeUrl_strips_placeholder:
  "sanitizeUrl (js ''%(title)s.%(ext)s'') = js ''%titles.%exts'' \<and>
   includes_str (js ''%(title)s.%(ext)s'') (js ''%(title)s'') \<and>
   \<not> includes_str (sanitizeUrl (js ''%(title)s.%(ext)s'')) (js ''%(title)s'')"
  by (simp add: sanitizeUrl_def shell_meta_def js_def)

section \<open>Properties of parseProgress\<close>

lemmas re_ev = re_test_def lit_def seqs_def js_def OneOrMore_def spaces_def number_def
  digits_or_dots_def is_space_def is_digit_def is_word_def

text \<open>
  C5. The line \<open>[download] Downloading item 5 of 67\<close>, which the comment above the
  pattern gives as its example, matches none of the three patterns: after
  \<open>Downloading\<close> the pattern allows the word \<open>video\<close> or nothing before the digits, not
  \<open>item\<close>. \<open>parseProgress\<close> returns the empty update for it. With \<open>video\<close> in place of
  \<open>item\<close> the two indices are extracted.
\<close>

theorem parseProgress_item_line:
  "parseProgress (js ''[download] Downloading item 5 of 67'') = no_progress \<and>
   parseProgress (js ''[download] Downloading video 5 of 67'') =
     no_progress\<lparr>currentTrack := Some 5, totalTracks := Some 67\<rparr>"
  by (simp add: parseProgress_def downloadRe_def playlistRe_def titleRe_def re_ev
      parseInt_def digits_val_def no_progress_def)

section \<open>Properties of the URL checks\<close>

lemma SoundCloudUrlSchema_accepts:
  "(\<exists>v. SoundCloudUrlSchema parse url = Inr v) \<longleftrightarrow>
   (\<exists>parsed. parse url = Some parsed \<and> hostname parsed \<in> set validDomains)"
  by (auto simp: SoundCloudUrlSchema_def split: option.splits)

lemma isValidSoundCloudUrl_accepts:
  "isValidSoundCloudUrl parse url \<longleftrightarrow>
   (\<exists>parsed. parse url = Some parsed \<and>
      hostname parsed \<in> {js ''soundcloud.com'', js ''www.soundcloud.com''})"
  by (auto simp: isValidSoundCloudUrl_def split: option.splits)

text \<open>
  C7. \<open>SoundCloudUrlSchema\<close> accepts exactly the URLs whose host name is one of the five
  of \<open>validDomains\<close> (\<open>SoundCloudUrlSchema_accepts\<close>). The check that \<open>handleDownload\<close>
  makes when a download is submitted is \<open>isValidSoundCloudUrl\<close>, which knows two of them
  only (\<open>isValidSoundCloudUrl_accepts\<close>): a URL on \<open>m.soundcloud.com\<close> passes the schema
  and is turned away at submission with the toast \<open>Invalid URL\<close>.
\<close>

theorem isValidSoundCloudUrl_rejects_mobile:
  "parse_plain_https (js ''https://m.soundcloud.com/artist/track'') =
     Some \<lparr>hostname = js ''m.soundcloud.com'', pathname = js ''/artist/track''\<rparr> \<and>
   SoundCloudUrlSchema parse_plain_https (js ''https://m.soundcloud.com/artist/track'') =
     Inr (js ''https://m.soundcloud.com/artist/track'') \<and>
   isValidSoundCloudUrl parse_plain_https (js ''https://m.soundcloud.com/artist/track'') = False \<and>
   handleDownload \<lparr>parseURL = parse_plain_https, existsSync = (\<lambda>p. False), newOperationId = js ''download_1''\<rparr>
       \<lparr>quality = high, downloadPath = js ''/home/u/downloads'', openInAppleMusic = True,
        embedThumbnail = True, addMetadata = True\<rparr>
       (js ''https://m.soundcloud.com/artist/track'') empty_store =
     ([Toast Failure (js ''Invalid URL'') (js ''Please enter a valid SoundCloud URL'')], empty_store)"
  by (simp add: parse_plain_https_def SoundCloudUrlSchema_def validDomains_def
      isValidSoundCloudUrl_def handleDownload_def plain_host_char_def plain_path_char_def
      is_digit_def js_def trim_def is_space_def)

text \<open>
  C8 (as amended). For every URL that parses, whose host name is not \<open>on.soundcloud.com\<close>,
  whose path does not start with \<open>/discover\<close>, \<open>/explore\<close> or \<open>/search\<close> and does not
  contain \<open>/sets/\<close> or \<open>/albums/\<close>, and whose path has exactly one non-empty segment,
  \<open>detectSoundCloudUrlType\<close> returns the type \<open>user\<close> with \<open>isValid = false\<close>.
\<close>

theorem detectSoundCloudUrlType_single_segment:
  assumes "parse url = Some parsed"
    and "hostname parsed \<noteq> js ''on.soundcloud.com''"
    and "\<not> startsWith (pathname parsed) (js ''/discover'')"
    and "\<not> startsWith (pathname parsed) (js ''/explore'')"
    and "\<not> startsWith (pathname parsed) (js ''/search'')"
    and "\<not> includes_str (pathname parsed) (js ''/sets/'')"
    and "\<not> includes_str (pathname parsed) (js ''/albums/'')"
    and "length (filter (\<lambda>segment. length segment > 0) (split 0x2F (pathname parsed))) = 1"
  shows "detectSoundCloudUrlType parse url = (js ''user'', False)"
  using assms by (simp add: detectSoundCloudUrlType_def Let_def)

theorem detectSoundCloudUrlType_single_segment_witness:
  "detectSoundCloudUrlType parse_plain_https (js ''https://soundcloud.com/artist'') = (js ''user'', False)"
proof -
  have p: "parse_plain_https (js ''https://soundcloud.com/artist'') =
      Some \<lparr>hostname = js ''soundcloud.com'', pathname = js ''/artist''\<rparr>"
    by (simp add: parse_plain_https_def plain_host_char_def plain_path_char_def is_digit_def js_def)
  show ?thesis
    by (rule detectSoundCloudUrlType_single_segment
          [of parse_plain_https "js ''https://soundcloud.com/artist''"
              "\<lparr>hostname = js ''soundcloud.com'', pathname = js ''/artist''\<rparr>"])
       (simp add: p, simp_all add: js_def)
qed

text \<open>
  C8 as it is written fails on the checks that come before the count of segments: each of
  these URLs is on an allow-listed host and has exactly one non-empty path segment, and
  none is classified as a user profile. The short-link host and the path \<open>/sets/\<close> are
  even classified as downloadable.
\<close>

theorem detectSoundCloudUrlType_single_segment_counterexample:
  "js ''on.soundcloud.com'' \<in> set validDomains \<and> js ''soundcloud.com'' \<in> set validDomains \<and>
   parse_plain_https (js ''https://on.soundcloud.com/abc'') =
     Some \<lparr>hostname = js ''on.soundcloud.com'', pathname = js ''/abc''\<rparr> \<and>
   filter (\<lambda>segment. length segment > 0) (split 0x2F (js ''/abc'')) = [js ''abc''] \<and>
   detectSoundCloudUrlType parse_plain_https (js ''https://on.soundcloud.com/abc'') =
     (js ''shortened'', True) \<and>
   parse_plain_https (js ''https://soundcloud.com/discover'') =
     Some \<lparr>hostname = js ''soundcloud.com'', pathname = js ''/discover''\<rparr> \<and>
   filter (\<lambda>segment. length segment > 0) (split 0x2F (js ''/discover'')) = [js ''discover''] \<and>
   detectSoundCloudUrlType parse_plain_https (js ''https://soundcloud.com/discover'') =
     (js ''discover'', False) \<and>
   parse_plain_https (js ''https://soundcloud.com/search'') =
     Some \<lparr>hostname = js ''soundcloud.com'', pathname = js ''/search''\<rparr> \<and>
   filter (\<lambda>segment. length segment > 0) (split 0x2F (js ''/search'')) = [js ''search''] \<and>
   detectSoundCloudUrlType parse_plain_https (js ''https://soundcloud.com/search'') =
     (js ''search'', False) \<and>
   parse_plain_https (js ''https://soundcloud.com/sets/'') =
     Some \<lparr>hostname = js ''soundcloud.com'', pathname = js ''/sets/''\<rparr> \<and>
   filter (\<lambda>segment. length segment > 0) (split 0x2F (js ''/sets/'')) = [js ''sets''] \<and>
   detectSoundCloudUrlType parse_plain_https (js ''https://soundcloud.com/sets/'') =
     (js ''playlist'', True)"
  by (simp add: parse_plain_https_def validDomains_def detectSoundCloudUrlType_def
      plain_host_char_def plain_path_char_def is_digit_def js_def)

section \<open>Properties of the operation store\<close>

lemma updateOperationState_operations:
  "globalOperations (updateOperationState operationId updates st) =
   (globalOperations st)(operationId \<mapsto>
      spread (case globalOperations st operationId of None \<Rightarrow> default_state | Some s \<Rightarrow> s) updates)"
  by (simp add: updateOperationState_def Let_def split: option.splits)

lemma updates_operations:
  "us \<noteq> [] \<or> globalOperations st operationId \<noteq> None \<Longrightarrow>
   globalOperations (foldl (\<lambda>s u. updateOperationState operationId u s) st us) operationId =
   Some (foldl spread (case globalOperations st operationId of None \<Rightarrow> default_state | Some s \<Rightarrow> s) us)"
proof (induction us arbitrary: st)
  case Nil
  then show ?case by auto
next
  case (Cons u us)
  have "globalOperations (updateOperationState operationId u st) operationId \<noteq> None"
    by (simp add: updateOperationState_operations)
  then have "us \<noteq> [] \<or> globalOperations (updateOperationState operationId u st) operationId \<noteq> None"
    by simp
  from Cons.IH [OF this] show ?case
    by (simp add: updateOperationState_operations)
qed

lemma subscribeToOperation_calls:
  "globalOperations st operationId = Some currentState \<Longrightarrow>
   calls (subscribeToOperation operationId callback st) = calls st @ [(callback, currentState)]"
  by (simp add: subscribeToOperation_def Let_def)

lemmas store_ev = updateOperationState_def subscribeToOperation_def spread_def default_state_def
  empty_store_def no_keys_def no_progress_def Let_def

text \<open>
  C6. After any updates \<open>us\<close> to an operation id (at least one, or none if the id already
  has a state), the stored state is the result of applying all of them in order to the
  state the id had at the start (the default state if it had none), and
  \<open>subscribeToOperation\<close> calls the new callback with exactly that state inside the call
  that registers it: the call is the last entry of \<open>calls\<close> in the store it returns.
\<close>

theorem subscribe_delivers_current_state:
  assumes "us \<noteq> [] \<or> globalOperations st operationId \<noteq> None"
  shows "globalOperations (foldl (\<lambda>s u. updateOperationState operationId u s) st us) operationId =
           Some (foldl spread
                   (case globalOperations st operationId of None \<Rightarrow> default_state | Some s \<Rightarrow> s) us) \<and>
         calls (subscribeToOperation operationId callback
                  (foldl (\<lambda>s u. updateOperationState operationId u s) st us)) =
           calls (foldl (\<lambda>s u. updateOperationState operationId u s) st us) @
           [(callback, foldl spread
                   (case globalOperations st operationId of None \<Rightarrow> default_state | Some s \<Rightarrow> s) us)]"
  using updates_operations [OF assms] subscribeToOperation_calls by simp

theorem subscribe_delivers_current_state_witness:
  "calls (subscribeToOperation (js ''op'') 7
            (foldl (\<lambda>s u. updateOperationState (js ''op'') u s) empty_store
               [no_keys\<lparr>p_isActive := Some True\<rparr>, no_keys\<lparr>p_error := Some (Some (js ''e''))\<rparr>])) =
   [(7, default_state\<lparr>isActive := True, error := Some (js ''e'')\<rparr>)]"
proof -
  have ne: "[no_keys\<lparr>p_isActive := Some True\<rparr>, no_keys\<lparr>p_error := Some (Some (js ''e''))\<rparr>] \<noteq> [] \<or>
            globalOperations empty_store (js ''op'') \<noteq> None"
    by simp
  have c: "calls (foldl (\<lambda>s u. updateOperationState (js ''op'') u s) empty_store
               [no_keys\<lparr>p_isActive := Some True\<rparr>, no_keys\<lparr>p_error := Some (Some (js ''e''))\<rparr>]) = []"
    by (simp add: store_ev)
  have f: "foldl spread (case globalOperations empty_store (js ''op'') of None \<Rightarrow> default_state | Some s \<Rightarrow> s)
             [no_keys\<lparr>p_isActive := Some True\<rparr>, no_keys\<lparr>p_error := Some (Some (js ''e''))\<rparr>] =
           default_state\<lparr>isActive := True, error := Some (js ''e'')\<rparr>"
    by (simp add: store_ev)
  show ?thesis
    using subscribe_delivers_current_state [OF ne, of 7] c f by simp
qed

lemma option_merge_assoc:
  "(case b of None \<Rightarrow> (case a of None \<Rightarrow> x | Some v \<Rightarrow> v) | Some v \<Rightarrow> v) =
   (case (case b of None \<Rightarrow> a | Some v \<Rightarrow> Some v) of None \<Rightarrow> x | Some v \<Rightarrow> v)"
  by (simp split: option.splits)

lemma spread_spread: "spread (spread s p1) p2 = spread s (caller_merge p1 p2)"
  by (simp add: spread_def caller_merge_def option_merge_assoc cong: option.case_cong)

lemma keys_of_isActive: "p_isActive p \<noteq> None \<Longrightarrow> ''isActive'' \<in> keys_of p"
  by (cases "p_isActive p") (simp_all add: keys_of_def)

lemma keys_of_progress: "p_progress p \<noteq> None \<Longrightarrow> ''progress'' \<in> keys_of p"
  by (cases "p_progress p") (simp_all add: keys_of_def)

lemma keys_of_trackInfo: "p_trackInfo p \<noteq> None \<Longrightarrow> ''trackInfo'' \<in> keys_of p"
  by (cases "p_trackInfo p") (simp_all add: keys_of_def)

lemma keys_of_error: "p_error p \<noteq> None \<Longrightarrow> ''error'' \<in> keys_of p"
  by (cases "p_error p") (simp_all add: keys_of_def)

lemma keys_of_isCompleted: "p_isCompleted p \<noteq> None \<Longrightarrow> ''isCompleted'' \<in> keys_of p"
  by (cases "p_isCompleted p") (simp_all add: keys_of_def)

lemma keys_of_downloadedFiles:
  "p_downloadedFiles p \<noteq> None \<Longrightarrow> ''downloadedFiles'' \<in> keys_of p"
  by (cases "p_downloadedFiles p") (simp_all add: keys_of_def)

lemma option_merge_commute:
  "a = None \<or> b = None \<Longrightarrow>
   (case b of None \<Rightarrow> a | Some v \<Rightarrow> Some v) = (case a of None \<Rightarrow> b | Some v \<Rightarrow> Some v)"
  by (auto split: option.splits)

lemma caller_merge_commute:
  assumes "keys_of p1 \<inter> keys_of p2 = {}"
  shows "caller_merge p1 p2 = caller_merge p2 p1"
proof -
  have "p_isActive p1 = None \<or> p_isActive p2 = None"
    using assms keys_of_isActive [of p1] keys_of_isActive [of p2] by blast
  note f1 = option_merge_commute [OF this]
  have "p_progress p1 = None \<or> p_progress p2 = None"
    using assms keys_of_progress [of p1] keys_of_progress [of p2] by blast
  note f2 = option_merge_commute [OF this]
  have "p_trackInfo p1 = None \<or> p_trackInfo p2 = None"
    using assms keys_of_trackInfo [of p1] keys_of_trackInfo [of p2] by blast
  note f3 = option_merge_commute [OF this]
  have "p_error p1 = None \<or> p_error p2 = None"
    using assms keys_of_error [of p1] keys_of_error [of p2] by blast
  note f4 = option_merge_commute [OF this]
  have "p_isCompleted p1 = None \<or> p_isCompleted p2 = None"
    using assms keys_of_isCompleted [of p1] keys_of_isCompleted [of p2] by blast
  note f5 = option_merge_commute [OF this]
  have "p_downloadedFiles p1 = None \<or> p_downloadedFiles p2 = None"
    using assms keys_of_downloadedFiles [of p1] keys_of_downloadedFiles [of p2] by blast
  note f6 = option_merge_commute [OF this]
  show ?thesis
    unfolding caller_merge_def using f1 f2 f3 f4 f5 f6 by simp
qed

text \<open>
  C9. For two partial updates with disjoint keys, \<open>updateOperationState\<close> with the first
  and then with the second stores the same states as a single \<open>updateOperationState\<close>
  with the caller's merge of the two, in whichever order the caller merges them. An
  update always stores the spread of the partial over the existing state, or over the
  default state when the id has none.
\<close>

theorem update_twice_is_update_merged:
  assumes "keys_of p1 \<inter> keys_of p2 = {}"
  shows "globalOperations (updateOperationState operationId p2 (updateOperationState operationId p1 st)) =
           globalOperations (updateOperationState operationId (caller_merge p1 p2) st) \<and>
         caller_merge p1 p2 = caller_merge p2 p1 \<and>
         globalOperations (updateOperationState operationId p1 st) operationId =
           Some (spread (case globalOperations st operationId of None \<Rightarrow> default_state | Some s \<Rightarrow> s) p1)"
  using caller_merge_commute [OF assms]
  by (simp add: updateOperationState_operations spread_spread)

theorem update_twice_is_update_merged_witness:
  "keys_of (no_keys\<lparr>p_isActive := Some True\<rparr>) \<inter> keys_of (no_keys\<lparr>p_error := Some (Some (js ''e''))\<rparr>) = {} \<and>
   globalOperations (updateOperationState (js ''op'') (no_keys\<lparr>p_error := Some (Some (js ''e''))\<rparr>)
      (updateOperationState (js ''op'') (no_keys\<lparr>p_isActive := Some True\<rparr>) empty_store)) (js ''op'') =
   Some (default_state\<lparr>isActive := True, error := Some (js ''e'')\<rparr>) \<and>
   globalOperations (updateOperationState (js ''op'')
      (caller_merge (no_keys\<lparr>p_isActive := Some True\<rparr>) (no_keys\<lparr>p_error := Some (Some (js ''e''))\<rparr>))
      empty_store) (js ''op'') =
   Some (default_state\<lparr>isActive := True, error := Some (js ''e'')\<rparr>)"
proof -
  have d: "keys_of (no_keys\<lparr>p_isActive := Some True\<rparr>) \<inter>
           keys_of (no_keys\<lparr>p_error := Some (Some (js ''e''))\<rparr>) = {}"
    by (simp add: keys_of_def no_keys_def)
  have e: "globalOperations (updateOperationState (js ''op'')
      (caller_merge (no_keys\<lparr>p_isActive := Some True\<rparr>) (no_keys\<lparr>p_error := Some (Some (js ''e''))\<rparr>))
      empty_store) (js ''op'') =
   Some (default_state\<lparr>isActive := True, error := Some (js ''e'')\<rparr>)"
    by (simp add: store_ev caller_merge_def)
  show ?thesis
    using update_twice_is_update_merged [OF d, of "js ''op''" empty_store] d e by simp
qed

section \<open>The outcome of a process exit\<close>

text \<open>
  C3. After the close handler has run, the operation has a stored state. If the exit code
  is 0 or at least one file was detected, that state has \<open>isActive = false\<close>,
  \<open>isCompleted = true\<close>, the final elapsed time and the list of files. Otherwise it has
  \<open>isActive = false\<close> and the error message with the exit code, and \<open>isCompleted\<close> is what
  it was before: \<open>false\<close> for an operation not yet completed, as in the default state.
\<close>

theorem onClose_outcome:
  "\<exists>after. globalOperations (onClose operationId startTime now currentProgress files code st) operationId =
       Some after \<and>
     (if code = Some 0 \<or> length files > 0 then
        isActive after = False \<and> isCompleted after = True \<and>
        elapsedTime (progress after) = Some (calculateElapsedTime now startTime) \<and>
        downloadedFiles after = files
      else
        isActive after = False \<and>
        error after = Some (js ''Download failed with exit code '' @ show_code code) \<and>
        isCompleted after =
          isCompleted (case globalOperations st operationId of None \<Rightarrow> default_state | Some s \<Rightarrow> s) \<and>
        isCompleted default_state = False)"
  by (simp add: onClose_def updateOperationState_operations spread_def no_keys_def Let_def
      default_state_def)

theorem onClose_outcome_witness:
  "(\<exists>after. globalOperations (onClose (js ''op'') 0 125000 no_progress [] (Some 1) empty_store) (js ''op'') = Some after \<and>
      isActive after = False \<and> isCompleted after = False \<and>
      error after = Some (js ''Download failed with exit code 1'')) \<and>
   (\<exists>after. globalOperations (onClose (js ''op'') 0 125000 no_progress [js ''a.mp3''] (Some 1) empty_store) (js ''op'') = Some after \<and>
      isActive after = False \<and> isCompleted after = True \<and>
      elapsedTime (progress after) = Some (js ''2:05''))"
proof -
  have c: "calculateElapsedTime 125000 0 = js ''2:05''"
    by (simp add: calculateElapsedTime_def js_rem_def padStart2_def show_int_def js_def Let_def)
  have m: "js ''Download failed with exit code '' @ show_code (Some 1) = js ''Download failed with exit code 1''"
    by (simp add: show_code_def show_int_def js_def)
  have d: "globalOperations empty_store (js ''op'') = None" "isCompleted default_state = False"
    by (simp_all add: empty_store_def default_state_def)
  show ?thesis
    using onClose_outcome [of "js ''op''" 0 125000 no_progress "[]" "Some 1" empty_store]
      onClose_outcome [of "js ''op''" 0 125000 no_progress "[js ''a.mp3'']" "Some 1" empty_store]
      c m d
    by auto
qed

section \<open>Starting a download never reaches the spawn\<close>

text \<open>
  The format selector of every quality preset (\<open>best[abr<=192]/best\<close> and its two
  siblings) contains \<open><\<close>, one of the dangerous patterns. The final validation of the
  argument vector therefore fails for every request, whatever the URL and the output path.
\<close>

lemma quality_args_dangerous: "list_ex hasDangerousPattern (QUALITY_PRESETS_args q)"
  by (cases q)
     (simp_all add: hasDangerousPattern_def dangerousPatterns_def backtick_pair_def re_test_def
        lit_def seqs_def js_def)

lemma quality_args_in_build:
  "set (QUALITY_PRESETS_args (quality settings)) \<subseteq>
   set (build_args settings sanitizedUrl safePath isPlaylist)"
  by (auto simp: build_args_def)

lemma final_validation_fails:
  "\<not> isValid (validateCommandArgs (map Some (build_args settings sanitizedUrl safePath isPlaylist)))"
proof -
  obtain a where a: "a \<in> set (QUALITY_PRESETS_args (quality settings))" "hasDangerousPattern a"
    using quality_args_dangerous [of "quality settings"] by (auto simp: list_ex_iff)
  from a(2) have "rejected a"
    by (simp add: rejected_def)
  with a(1) have "list_ex rejected (build_args settings sanitizedUrl safePath isPlaylist)"
    using quality_args_in_build [of settings sanitizedUrl safePath isPlaylist]
    by (auto simp: list_ex_iff)
  then show ?thesis
    by (simp add: isValid_iff list_ex_bad_Some)
qed

lemma executeBackgroundDownload_fails:
  "\<exists>message st' s.
     executeBackgroundDownload env settings operationId sanitizedUrl safePath isPlaylist st =
       ([Toast Failure (js ''Download Error'') message], st') \<and>
     globalOperations st' operationId = Some s \<and> isActive s = False \<and> error s = Some message"
  by (simp add: executeBackgroundDownload_def Let_def final_validation_fails
      updateOperationState_operations spread_def no_keys_def)

text \<open>
  C1. For every output path in the settings, so in particular for one outside the home
  directory and its allow-listed subdirectories, \<open>handleDownload\<close> spawns no process and
  ends in an error: either one of its own checks refuses the request with a failure toast
  and the store untouched, or the request gets as far as \<open>executeBackgroundDownload\<close>,
  whose validation of the arguments fails before the spawn; then the failure toast is
  shown and the operation is stored inactive with the error message.
\<close>

theorem handleDownload_never_spawns:
  "(\<forall>path args. Spawn path args \<notin> set (fst (handleDownload env settings url st))) \<and>
   ((\<exists>title message. handleDownload env settings url st = ([Toast Failure title message], st)) \<or>
    (\<exists>title message st' s.
        handleDownload env settings url st =
          ([Toast Animated title (js ''Initializing...''),
            Toast Failure (js ''Download Error'') message,
            Push (newOperationId env)], st') \<and>
        globalOperations st' (newOperationId env) = Some s \<and>
        isActive s = False \<and> error s = Some message))"
proof -
  consider (blank) "length (trim url) = 0"
    | (host) "length (trim url) \<noteq> 0" "\<not> isValidSoundCloudUrl (parseURL env) url"
    | (urlargs) "length (trim url) \<noteq> 0" "isValidSoundCloudUrl (parseURL env) url"
        "first_sanitized (validateCommandArgs [Some url]) = None"
    | (pathargs) sanitizedUrl where "length (trim url) \<noteq> 0" "isValidSoundCloudUrl (parseURL env) url"
        "first_sanitized (validateCommandArgs [Some url]) = Some sanitizedUrl"
        "first_sanitized (validateCommandArgs [Some (downloadPath settings)]) = None"
    | (started) sanitizedUrl safePath where "length (trim url) \<noteq> 0"
        "isValidSoundCloudUrl (parseURL env) url"
        "first_sanitized (validateCommandArgs [Some url]) = Some sanitizedUrl"
        "first_sanitized (validateCommandArgs [Some (downloadPath settings)]) = Some safePath"
    by (cases "first_sanitized (validateCommandArgs [Some url])";
        cases "first_sanitized (validateCommandArgs [Some (downloadPath settings)])") auto
  then show ?thesis
  proof cases
    case blank
    then show ?thesis by (simp add: handleDownload_def)
  next
    case host
    then show ?thesis by (simp add: handleDownload_def)
  next
    case urlargs
    then show ?thesis by (simp add: handleDownload_def)
  next
    case pathargs
    then show ?thesis by (simp add: handleDownload_def Let_def)
  next
    case started
    from executeBackgroundDownload_fails
      [of env settings "newOperationId env" sanitizedUrl safePath "isPlaylistUrl sanitizedUrl" st]
    obtain message st' s where
      e: "executeBackgroundDownload env settings (newOperationId env) sanitizedUrl safePath
            (isPlaylistUrl sanitizedUrl) st = ([Toast Failure (js ''Download Error'') message], st')"
        "globalOperations st' (newOperationId env) = Some s" "isActive s = False"
        "error s = Some message"
      by blast
    with started show ?thesis by (simp add: handleDownload_def Let_def)
  qed
qed

theorem handleDownload_never_spawns_witness:
  "(\<exists>message st'.
      handleDownload demo_env demo_settings (js ''https://soundcloud.com/artist/track'') empty_store =
        ([Toast Animated (js ''Starting Download'') (js ''Initializing...''),
          Toast Failure (js ''Download Error'') message,
          Push (js ''download_1'')], st')) \<and>
   (\<forall>path args. Spawn path args \<notin> set (fst (handleDownload demo_env demo_settings
       (js ''https://soundcloud.com/artist/track'') empty_store)))"
proof -
  have g1: "length (trim (js ''https://soundcloud.com/artist/track'')) \<noteq> 0"
    by (simp add: trim_def is_space_def js_def)
  have g2: "isValidSoundCloudUrl (parseURL demo_env) (js ''https://soundcloud.com/artist/track'')"
    by (simp add: demo_env_def isValidSoundCloudUrl_def parse_plain_https_def plain_host_char_def
        plain_path_char_def is_digit_def js_def)
  have g3: "first_sanitized (validateCommandArgs [Some (js ''https://soundcloud.com/artist/track'')]) =
      Some (js ''https://soundcloud.com/artist/track'')"
    by (simp add: first_sanitized_def ev)
  have g4: "first_sanitized (validateCommandArgs [Some (downloadPath demo_settings)]) = Some (js ''/etc'')"
    by (simp add: first_sanitized_def demo_settings_def ev)
  have g5: "\<not> isPlaylistUrl (js ''https://soundcloud.com/artist/track'')"
    by (simp add: isPlaylistUrl_def js_def)
  have h: "hd (fst (handleDownload demo_env demo_settings (js ''https://soundcloud.com/artist/track'')
                empty_store)) = Toast Animated (js ''Starting Download'') (js ''Initializing...'')"
    using g1 g2 by (simp add: handleDownload_def g3 g4 g5 Let_def)
  have i: "newOperationId demo_env = js ''download_1''"
    by (simp add: demo_env_def)
  show ?thesis
    using handleDownload_never_spawns
      [of demo_env demo_settings "js ''https://soundcloud.com/artist/track''" empty_store] h i
    by auto
qed

end
